theory Spec2Isabelle
  imports
    Main
    "HOL-Library.Sublist"
    "HOL-Library.Char_ord"
    "HOL-Library.List_Lexorder"
    "HOL-Library.AList"
    "HOL-Library.Multiset"
begin

section \<open>Python values, exceptions and strings\<close>

text \<open>
  The script \<^verbatim>\<open>bin/build_config_map.py\<close> works on the values that
  \<^verbatim>\<open>yaml.safe_load\<close> builds: \<^verbatim>\<open>None\<close>, booleans, integers, floats, strings,
  bytes, dates, date-times, lists, sets and dicts. Floats, bytes, dates and date-times are kept
  as their source text:
  the script never computes with them. A dict is an association list in insertion order, as
  Python's \<^verbatim>\<open>dict\<close> iterates. Text is a \<^typ>\<open>string\<close>; a character stands for a code
  point below 256.
\<close>

datatype pyval =
    PNone
  | PBool bool
  | PInt int
  | PFloat string
  | PStr string
  | PBytes string
  | PDate string
  | PDatetime string
  | PList "pyval list"
  | PSet "pyval list"
  | PDict "(pyval \<times> pyval) list"

text \<open>
  The exceptions that can reach the handler of \<^verbatim>\<open>parse_frontmatter\<close>, each with the
  text that \<^verbatim>\<open>str(e)\<close> gives. \<^verbatim>\<open>KeyboardInterrupt\<close> is the one class here
  that does not derive from \<^verbatim>\<open>Exception\<close>.
\<close>

datatype exn =
    OSError string
  | UnicodeDecodeError string
  | YAMLError string
  | TypeError string
  | KeyError string
  | NameError string
  | RecursionError string
  | KeyboardInterrupt

fun is_Exception :: "exn \<Rightarrow> bool" where
  "is_Exception KeyboardInterrupt = False"
| "is_Exception _ = True"

fun exn_str :: "exn \<Rightarrow> string" where
  "exn_str (OSError m) = m"
| "exn_str (UnicodeDecodeError m) = m"
| "exn_str (YAMLError m) = m"
| "exn_str (TypeError m) = m"
| "exn_str (KeyError m) = m"
| "exn_str (NameError m) = m"
| "exn_str (RecursionError m) = m"
| "exn_str KeyboardInterrupt = []"

definition quoted :: "string \<Rightarrow> string" where
  "quoted s = CHR 0x27 # s @ [CHR 0x27]"

fun type_name :: "pyval \<Rightarrow> string" where
  "type_name PNone = ''NoneType''"
| "type_name (PBool _) = ''bool''"
| "type_name (PInt _) = ''int''"
| "type_name (PFloat _) = ''float''"
| "type_name (PStr _) = ''str''"
| "type_name (PBytes _) = ''bytes''"
| "type_name (PDate _) = ''datetime.date''"
| "type_name (PDatetime _) = ''datetime.datetime''"
| "type_name (PList _) = ''list''"
| "type_name (PSet _) = ''set''"
| "type_name (PDict _) = ''dict''"

text \<open>\<^verbatim>\<open>YAML_SEPARATOR = '---'\<close>\<close>

definition YAML_SEPARATOR :: string where
  "YAML_SEPARATOR = ''---''"

text \<open>
  \<^verbatim>\<open>str.split(sep)\<close> with no limit: the text is cut at every occurrence of \<open>sep\<close>,
  found from left to right without overlap. (Python refuses an empty separator; the only
  separator of the script is \<^const>\<open>YAML_SEPARATOR\<close>.)
\<close>

function str_split :: "string \<Rightarrow> string \<Rightarrow> string list" where
  "str_split sep [] = [[]]"
| "str_split sep (c # cs) =
     (if sep \<noteq> [] \<and> prefix sep (c # cs)
      then [] # str_split sep (drop (length sep) (c # cs))
      else (let ps = str_split sep cs in (c # hd ps) # tl ps))"
  by pat_completeness auto
termination
  by (relation "measure (\<lambda>(sep, s). length s)") (auto simp: Suc_le_eq)

text \<open>
  \<^verbatim>\<open>str.strip()\<close> removes leading and trailing whitespace. Below 256 the whitespace
  code points of Python are 9 to 13, 28 to 32, 133 and 160.
\<close>

definition is_space :: "char \<Rightarrow> bool" where
  "is_space c =
     (let n = (of_char c :: nat)
      in (9 \<le> n \<and> n \<le> 13) \<or> (28 \<le> n \<and> n \<le> 32) \<or> n = 133 \<or> n = 160)"

definition strip :: "string \<Rightarrow> string" where
  "strip s = rev (dropWhile is_space (rev (dropWhile is_space s)))"

text \<open>\<^verbatim>\<open>needle in haystack\<close> on two strings: the substring test.\<close>

fun str_contains :: "string \<Rightarrow> string \<Rightarrow> bool" where
  "str_contains f [] = (f = [])"
| "str_contains f (c # cs) = (prefix f (c # cs) \<or> str_contains f cs)"

text \<open>
  \<^verbatim>\<open>field in data\<close> for a string \<open>field\<close>: key membership on a dict, element
  membership on a list or a set, the substring test on a string, and a
  \<^verbatim>\<open>TypeError\<close> on every other value. A string is equal to no value of another type.
\<close>

fun py_contains :: "pyval \<Rightarrow> string \<Rightarrow> exn + bool" where
  "py_contains (PDict d) f = Inr (PStr f \<in> set (map fst d))"
| "py_contains (PList xs) f = Inr (PStr f \<in> set xs)"
| "py_contains (PSet xs) f = Inr (PStr f \<in> set xs)"
| "py_contains (PStr s) f = Inr (str_contains f s)"
| "py_contains (PBytes b) f =
     Inl (TypeError (''a bytes-like object is required, not '' @ quoted ''str''))"
| "py_contains v f =
     Inl (TypeError (''argument of type '' @ quoted (type_name v) @ '' is not iterable''))"

text \<open>\<^verbatim>\<open>data[field]\<close> for a string \<open>field\<close>: only a dict can be indexed by a string.\<close>

fun py_getitem :: "pyval \<Rightarrow> string \<Rightarrow> exn + pyval" where
  "py_getitem (PDict d) f =
     (case map_of d (PStr f) of
        None \<Rightarrow> Inl (KeyError (quoted f))
      | Some v \<Rightarrow> Inr v)"
| "py_getitem (PStr s) f =
     Inl (TypeError (''string indices must be integers, not '' @ quoted ''str''))"
| "py_getitem (PList xs) f =
     Inl (TypeError ''list indices must be integers or slices, not str'')"
| "py_getitem (PBytes b) f =
     Inl (TypeError ''byte indices must be integers or slices, not str'')"
| "py_getitem v f =
     Inl (TypeError (quoted (type_name v) @ '' object is not subscriptable''))"

section \<open>Paths, the file system and the output streams\<close>

text \<open>
  A path is the list of its components, as \<^verbatim>\<open>pathlib\<close> compares paths; an
  absolute path has the root \<^verbatim>\<open>/\<close> (or \<^verbatim>\<open>//\<close>) as its first component, and
  \<^verbatim>\<open>str\<close> puts no further separator after it. The file
  system gives, for a directory, the names of its entries in the order the operating system
  enumerates them, and for a file the result of opening and reading it as UTF-8: the text,
  or the exception raised.
\<close>

type_synonym path = "string list"

definition path_name :: "path \<Rightarrow> string" where
  "path_name p = (if p = [] then [] else last p)"

fun path_str :: "path \<Rightarrow> string" where
  "path_str [] = ''.''"
| "path_str [x] = x"
| "path_str (x # y # ys) =
     (if x = ''/'' \<or> x = ''//'' then x @ path_str (y # ys)
      else x @ ''/'' @ path_str (y # ys))"

record filesystem =
  entries :: "path \<Rightarrow> string list option"
  read_text :: "path \<Rightarrow> exn + string"

definition is_dir :: "filesystem \<Rightarrow> path \<Rightarrow> bool" where
  "is_dir fs p = (entries fs p \<noteq> None)"

text \<open>
  \<^verbatim>\<open>p.glob('*.md')\<close>: the entries of \<open>p\<close> itself whose name ends in \<^verbatim>\<open>.md\<close>, in
  enumeration order; nothing when \<open>p\<close> is not a directory.
\<close>

definition glob_md :: "filesystem \<Rightarrow> path \<Rightarrow> path list" where
  "glob_md fs p =
     (case entries fs p of
        None \<Rightarrow> []
      | Some ns \<Rightarrow> map (\<lambda>n. p @ [n]) (filter (suffix ''.md'') ns))"

text \<open>What \<^verbatim>\<open>print\<close> has written so far: one element for each call.\<close>

record streams =
  out :: "string list"
  err :: "string list"

definition print_out :: "string \<Rightarrow> streams \<Rightarrow> streams" where
  "print_out s io = io\<lparr>out := out io @ [s]\<rparr>"

definition print_err :: "string \<Rightarrow> streams \<Rightarrow> streams" where
  "print_err s io = io\<lparr>err := err io @ [s]\<rparr>"

section \<open>\<^verbatim>\<open>parse_frontmatter\<close>\<close>

type_synonym record_hash = "(string \<times> pyval) list"

text \<open>
  The loop over \<^verbatim>\<open>field_list\<close>. \<^verbatim>\<open>return_hash[field] = data[field]\<close> is
  \<^const>\<open>AList.update\<close>: a new key goes to the end, a key already present keeps its place.
\<close>

fun copy_fields :: "pyval \<Rightarrow> string list \<Rightarrow> record_hash \<Rightarrow> exn + record_hash" where
  "copy_fields data [] return_hash = Inr return_hash"
| "copy_fields data (field # rest) return_hash =
     (case py_contains data field of
        Inl e \<Rightarrow> Inl e
      | Inr False \<Rightarrow> copy_fields data rest return_hash
      | Inr True \<Rightarrow>
          (case py_getitem data field of
             Inl e \<Rightarrow> Inl e
           | Inr v \<Rightarrow> copy_fields data rest (AList.update field v return_hash)))"

definition warn_msg :: "path \<Rightarrow> string" where
  "warn_msg file_path =
     ''WARN: Skipping '' @ path_name file_path @ '': '' @ ''No frontmatter found.''"

definition error_msg :: "path \<Rightarrow> exn \<Rightarrow> string" where
  "error_msg file_path e =
     ''ERROR: file read or missing fields '' @ path_name file_path @ '': '' @ exn_str e"

text \<open>
  The body of the \<^verbatim>\<open>try\<close>: it ends with the value returned, or with the exception
  raised. \<open>safe_load\<close> is \<^verbatim>\<open>yaml.safe_load\<close>, a parameter: the decoded value or
  the exception.
\<close>

definition try_body ::
  "(string \<Rightarrow> exn + pyval) \<Rightarrow> filesystem \<Rightarrow> path \<Rightarrow> string list \<Rightarrow> streams
     \<Rightarrow> (exn + record_hash option) \<times> streams" where
  "try_body safe_load fs file_path field_list io =
     (case read_text fs file_path of
        Inl e \<Rightarrow> (Inl e, io)
      | Inr content \<Rightarrow>
          (let parts = str_split YAML_SEPARATOR content
           in if length parts < 3 \<or> strip (parts ! 0) \<noteq> []
              then (Inr None, print_err (warn_msg file_path) io)
              else
                (let frontmatter = parts ! 1
                 in case safe_load frontmatter of
                      Inl e \<Rightarrow> (Inl e, io)
                    | Inr data \<Rightarrow>
                        (case copy_fields data field_list [] of
                           Inl e \<Rightarrow> (Inl e, io)
                         | Inr return_hash \<Rightarrow>
                             (if return_hash \<noteq> [] then (Inr (Some return_hash), io)
                              else (Inr None, io))))))"

text \<open>
  \<^verbatim>\<open>except Exception as e\<close> catches what derives from \<^verbatim>\<open>Exception\<close>, prints the
  \<^verbatim>\<open>ERROR\<close> line and falls through to \<^verbatim>\<open>return None\<close>; anything else goes on to
  the caller.
\<close>

definition parse_frontmatter ::
  "(string \<Rightarrow> exn + pyval) \<Rightarrow> filesystem \<Rightarrow> path \<Rightarrow> string list \<Rightarrow> streams
     \<Rightarrow> (exn + record_hash option) \<times> streams" where
  "parse_frontmatter safe_load fs file_path field_list io =
     (case try_body safe_load fs file_path field_list io of
        (Inl e, io') \<Rightarrow>
          (if is_Exception e then (Inr None, print_err (error_msg file_path e) io')
           else (Inl e, io'))
      | (Inr r, io') \<Rightarrow> (Inr r, io'))"

section \<open>\<^verbatim>\<open>parse_dir\<close> and the script\<close>

text \<open>
  The loop of \<^verbatim>\<open>parse_dir\<close>. \<^verbatim>\<open>if data:\<close> is true for a dict with at least one
  key, false for \<^verbatim>\<open>None\<close> and for an empty dict.
\<close>

fun truthy :: "record_hash option \<Rightarrow> bool" where
  "truthy None = False"
| "truthy (Some h) = (h \<noteq> [])"

fun scan_files ::
  "(string \<Rightarrow> exn + pyval) \<Rightarrow> filesystem \<Rightarrow> string list \<Rightarrow> path list \<Rightarrow> record_hash list
     \<Rightarrow> streams \<Rightarrow> (exn + record_hash list) \<times> streams" where
  "scan_files safe_load fs field_list [] all_data io = (Inr all_data, io)"
| "scan_files safe_load fs field_list (file_path # rest) all_data io =
     (case parse_frontmatter safe_load fs file_path field_list io of
        (Inl e, io') \<Rightarrow> (Inl e, io')
      | (Inr data, io') \<Rightarrow>
          scan_files safe_load fs field_list rest
            (if truthy data then all_data @ [the data] else all_data) io')"

definition hash_val :: "record_hash \<Rightarrow> pyval" where
  "hash_val h = PDict (map (\<lambda>(k, v). (PStr k, v)) h)"

definition no_posts_msg :: string where
  "no_posts_msg = ''No valid Jekyll posts with relevant fields found.''"

text \<open>
  \<^verbatim>\<open>parse_dir(file_path, field_list)\<close>. The loop reads the module's global
  \<^verbatim>\<open>scanpath\<close> (\<open>None\<close> here when the name is unbound), and its loop variable takes
  the name of the parameter \<^verbatim>\<open>file_path\<close>. \<^verbatim>\<open>sorted\<close> orders the paths by their
  components. The value returned is \<^verbatim>\<open>None\<close> after the notice, the dict
  \<^verbatim>\<open>{'config_map': all_data}\<close> otherwise.
\<close>

definition parse_dir ::
  "(string \<Rightarrow> exn + pyval) \<Rightarrow> filesystem \<Rightarrow> path option \<Rightarrow> path \<Rightarrow> string list \<Rightarrow> streams
     \<Rightarrow> (exn + pyval) \<times> streams" where
  "parse_dir safe_load fs scanpath file_path field_list io =
     (case scanpath of
        None \<Rightarrow> (Inl (NameError (''name '' @ quoted ''scanpath'' @ '' is not defined'')), io)
      | Some sp \<Rightarrow>
          (case scan_files safe_load fs field_list (sort (glob_md fs sp)) [] io of
             (Inl e, io') \<Rightarrow> (Inl e, io')
           | (Inr all_data, io') \<Rightarrow>
               (if all_data = [] then (Inr PNone, print_out no_posts_msg io')
                else (Inr (PDict [(PStr ''config_map'', PList (map hash_val all_data))]), io'))))"

text \<open>
  The script after \<^verbatim>\<open>parse_args\<close>: \<open>directory\<close> is \<^verbatim>\<open>Path(args.directory)\<close> and
  \<open>field_list\<close> is \<^verbatim>\<open>args.fields\<close>, which \<^verbatim>\<open>nargs='+'\<close> makes non-empty. \<open>dump\<close> is
  \<^verbatim>\<open>yaml.dump\<close> with the script's options, a parameter. The result is the two streams
  and the exit status. An exception nobody catches ends the process: with status 1 when it
  derives from \<^verbatim>\<open>Exception\<close>, and by the signal of the interrupt, which a shell
  reports as status 130, for \<^verbatim>\<open>KeyboardInterrupt\<close> (the traceback that Python then
  writes on the error stream is left out).
\<close>

definition main ::
  "(string \<Rightarrow> exn + pyval) \<Rightarrow> (pyval \<Rightarrow> string) \<Rightarrow> filesystem \<Rightarrow> path \<Rightarrow> string list
     \<Rightarrow> streams \<times> nat" where
  "main safe_load dump fs directory field_list =
     (let io = \<lparr>out = [], err = []\<rparr>; scanpath = directory
      in if \<not> is_dir fs scanpath
         then (print_err (''ERROR: path '' @ quoted (path_str scanpath) @ '' is not valid dir.'') io, 1)
         else
           (case parse_dir safe_load fs (Some scanpath) scanpath field_list io of
              (Inl e, io') \<Rightarrow> (io', if is_Exception e then 1 else 130)
            | (Inr output, io') \<Rightarrow> (print_out (dump output) io', 0)))"

section \<open>Auxiliary definitions\<close>

text \<open>
  One turn of the loop of \<^const>\<open>copy_fields\<close> on a dict: the field is copied when
  the dict has it.
\<close>

definition pick :: "(pyval \<times> pyval) list \<Rightarrow> string \<Rightarrow> record_hash \<Rightarrow> record_hash" where
  "pick d f h = (case map_of d (PStr f) of None \<Rightarrow> h | Some v \<Rightarrow> AList.update f v h)"

text \<open>
  What one file contributes to a scan, taken from \<^const>\<open>parse_frontmatter\<close> run on
  empty streams: the record appended to \<^verbatim>\<open>all_data\<close>, if any, and the lines
  printed on the error stream.
\<close>

definition file_record ::
  "(string \<Rightarrow> exn + pyval) \<Rightarrow> filesystem \<Rightarrow> string list \<Rightarrow> path \<Rightarrow> record_hash option" where
  "file_record safe_load fs field_list p =
     (case fst (parse_frontmatter safe_load fs p field_list \<lparr>out = [], err = []\<rparr>) of
        Inl e \<Rightarrow> None
      | Inr data \<Rightarrow> (if truthy data then data else None))"

definition file_lines ::
  "(string \<Rightarrow> exn + pyval) \<Rightarrow> filesystem \<Rightarrow> string list \<Rightarrow> path \<Rightarrow> string list" where
  "file_lines safe_load fs field_list p =
     err (snd (parse_frontmatter safe_load fs p field_list \<lparr>out = [], err = []\<rparr>))"


subsection \<open>An example collection\<close>

text \<open>
  A small collection for the concrete checks: what \<^verbatim>\<open>yaml.safe_load\<close> returns on
  the frontmatter of each example file, the directories with their entries in enumeration
  order, and the text of each file.
\<close>

definition example_docs :: "(string \<times> pyval) list" where
  "example_docs =
     [(''\<newline>identifier: x1\<newline>commonName: Org A\<newline>'',
         PDict [(PStr ''identifier'', PStr ''x1''), (PStr ''commonName'', PStr ''Org A'')]),
      (''\<newline>identifier: x2\<newline>'', PDict [(PStr ''identifier'', PStr ''x2'')]),
      (''\<newline># to do\<newline>'', PNone),
      (''\<newline>just a title\<newline>'', PStr ''just a title''),
      (''\<newline>title: a'', PDict [(PStr ''title'', PStr ''a'')]),
      (''title: a---b\<newline>next: n\<newline>'',
         PDict [(PStr ''title'', PStr ''a---b''), (PStr ''next'', PStr ''n'')])]"

definition example_load :: "string \<Rightarrow> exn + pyval" where
  "example_load s =
     (case map_of example_docs s of
        Some v \<Rightarrow> Inr v
      | None \<Rightarrow> Inl (YAMLError ''not one of the example documents''))"

definition example_dirs :: "(path \<times> string list) list" where
  "example_dirs =
     [([''cocs''], [''b.md'', ''README.txt'', ''a.md'', ''c.md'']),
      ([''drafts''], [''s.md'', ''n.md'']),
      ([''empty''], []),
      ([''posts''], [''t.md''])]"

definition example_files :: "(path \<times> string) list" where
  "example_files =
     [([''cocs'', ''a.md''],
         ''---\<newline>identifier: x1\<newline>commonName: Org A\<newline>---\<newline>Text --- more text\<newline>''),
      ([''cocs'', ''b.md''], ''---\<newline>identifier: x2\<newline>---\<newline>''),
      ([''cocs'', ''c.md''], ''No frontmatter.\<newline>''),
      ([''cocs'', ''README.txt''], ''About this collection\<newline>''),
      ([''drafts'', ''n.md''], ''---\<newline># to do\<newline>---\<newline>''),
      ([''drafts'', ''s.md''], ''---\<newline>just a title\<newline>---\<newline>''),
      ([''posts'', ''t.md''], ''---\<newline>title: a---b\<newline>next: n\<newline>---\<newline>Body\<newline>'')]"

definition example_fs :: filesystem where
  "example_fs =
     \<lparr>entries = map_of example_dirs,
      read_text = (\<lambda>p. case map_of example_files p of
                         Some c \<Rightarrow> Inr c
                       | None \<Rightarrow> Inl (OSError ''[Errno 2] No such file or directory''))\<rparr>"

section \<open>Properties of the field loop\<close>

lemma py_contains_exn: "py_contains v f = Inl e \<Longrightarrow> is_Exception e"
  by (cases v) auto

lemma py_getitem_exn: "py_getitem v f = Inl e \<Longrightarrow> is_Exception e"
  by (cases v) (auto split: option.splits)

lemma copy_fields_exn: "copy_fields v fl h = Inl e \<Longrightarrow> is_Exception e"
proof (induction fl arbitrary: h)
  case Nil
  then show ?case by simp
next
  case (Cons f fl)
  then show ?case
    by (auto split: sum.splits bool.splits if_splits dest: py_contains_exn py_getitem_exn)
qed

lemma copy_fields_dict: "copy_fields (PDict d) fl h = Inr (fold (pick d) fl h)"
proof (induction fl arbitrary: h)
  case Nil
  then show ?case by simp
next
  case (Cons f fl)
  show ?case
  proof (cases "map_of d (PStr f)")
    case None
    then have "PStr f \<notin> fst ` set d" by (simp add: map_of_eq_None_iff)
    with None Cons show ?thesis by (simp add: pick_def)
  next
    case (Some v)
    then have "PStr f \<in> fst ` set d" by (metis map_of_eq_None_iff option.distinct(1))
    with Some Cons show ?thesis by (simp add: pick_def)
  qed
qed




lemma keys_pick:
  "map fst (pick d f h) =
     (if PStr f \<in> fst ` set d \<and> f \<notin> set (map fst h) then map fst h @ [f] else map fst h)"
proof (cases "map_of d (PStr f)")
  case None
  then have "PStr f \<notin> fst ` set d" by (simp add: map_of_eq_None_iff)
  with None show ?thesis by (simp add: pick_def)
next
  case (Some v)
  then have "PStr f \<in> fst ` set d" by (metis map_of_eq_None_iff option.distinct(1))
  with Some show ?thesis by (simp add: pick_def update_keys)
qed

lemma keys_fold_pick:
  "map fst (fold (pick d) fl []) = rev (remdups (rev (filter (\<lambda>f. PStr f \<in> fst ` set d) fl)))"
proof (induction fl rule: rev_induct)
  case Nil
  then show ?case by simp
next
  case (snoc f fl)
  then show ?case by (auto simp: keys_pick)
qed

lemma copy_fields_other_quiet:
  "\<forall>d. v \<noteq> PDict d \<Longrightarrow> \<forall>f\<in>set fl. py_contains v f = Inr False \<Longrightarrow> copy_fields v fl h = Inr h"
  by (induction fl arbitrary: h) auto

lemma py_getitem_other: "\<forall>d. v \<noteq> PDict d \<Longrightarrow> \<exists>e. py_getitem v f = Inl e"
  by (cases v) auto

lemma copy_fields_other_raises:
  "\<forall>d. v \<noteq> PDict d \<Longrightarrow> \<exists>f\<in>set fl. py_contains v f \<noteq> Inr False \<Longrightarrow> \<exists>e. copy_fields v fl h = Inl e"
proof (induction fl arbitrary: h)
  case Nil
  then show ?case by simp
next
  case (Cons f fl)
  show ?case
  proof (cases "py_contains v f")
    case (Inl e)
    then show ?thesis by simp
  next
    case (Inr b)
    show ?thesis
    proof (cases b)
      case True
      with Inr py_getitem_other[OF Cons.prems(1), of f] show ?thesis by auto
    next
      case False
      with Inr Cons show ?thesis by auto
    qed
  qed
qed

lemma try_body_decoded:
  assumes "read_text fs file_path = Inr content"
    and "3 \<le> length (str_split YAML_SEPARATOR content)"
    and "strip (str_split YAML_SEPARATOR content ! 0) = []"
    and "safe_load (str_split YAML_SEPARATOR content ! 1) = Inr data"
  shows "try_body safe_load fs file_path field_list io =
     (case copy_fields data field_list [] of
        Inl e \<Rightarrow> (Inl e, io)
      | Inr h \<Rightarrow> (Inr (if h \<noteq> [] then Some h else None), io))"
  using assms by (simp add: try_body_def Let_def split: sum.splits)

lemma parse_frontmatter_decoded:
  assumes "read_text fs file_path = Inr content"
    and "3 \<le> length (str_split YAML_SEPARATOR content)"
    and "strip (str_split YAML_SEPARATOR content ! 0) = []"
    and "safe_load (str_split YAML_SEPARATOR content ! 1) = Inr data"
  shows "parse_frontmatter safe_load fs file_path field_list io =
     (case copy_fields data field_list [] of
        Inl e \<Rightarrow> (Inr None, print_err (error_msg file_path e) io)
      | Inr h \<Rightarrow> (Inr (if h \<noteq> [] then Some h else None), io))"
proof -
  have "try_body safe_load fs file_path field_list io =
     (case copy_fields data field_list [] of
        Inl e \<Rightarrow> (Inl e, io)
      | Inr h \<Rightarrow> (Inr (if h \<noteq> [] then Some h else None), io))"
    using assms by (rule try_body_decoded)
  then show ?thesis
    by (auto simp: parse_frontmatter_def split: sum.splits dest: copy_fields_exn)
qed

section \<open>Extraction\<close>

lemmas example_defs = example_fs_def example_files_def example_dirs_def example_load_def
  example_docs_def YAML_SEPARATOR_def strip_def is_space_def




text \<open>
  Claim C2, as amended. The keys of the returned record stand in the order of the request
  list: the matched names of \<^verbatim>\<open>field_list\<close>, each at the place of its first
  occurrence. (\<open>rev (remdups (rev xs))\<close> keeps the first occurrence of each element
  of \<open>xs\<close>.) The order of the keys in the decoded dict plays no part.
\<close>

theorem parse_frontmatter_request_order:
  assumes "read_text fs file_path = Inr content"
    and "3 \<le> length (str_split YAML_SEPARATOR content)"
    and "strip (str_split YAML_SEPARATOR content ! 0) = []"
    and "safe_load (str_split YAML_SEPARATOR content ! 1) = Inr (PDict d)"
    and "parse_frontmatter safe_load fs file_path field_list io = (Inr (Some h), io')"
  shows "map fst h = rev (remdups (rev (filter (\<lambda>f. PStr f \<in> fst ` set d) field_list)))"
proof -
  have "parse_frontmatter safe_load fs file_path field_list io =
          (Inr (if fold (pick d) field_list [] \<noteq> [] then Some (fold (pick d) field_list []) else None), io)"
    using parse_frontmatter_decoded[where safe_load = safe_load, OF assms(1-4)]
    by (simp add: copy_fields_dict)
  with assms(5) have "h = fold (pick d) field_list []"
    by (simp split: if_splits)
  then show ?thesis by (simp add: keys_fold_pick)
qed

theorem parse_frontmatter_request_order_witness:
  "map fst [(''commonName'', PStr ''Org A''), (''identifier'', PStr ''x1'')] =
     rev (remdups (rev (filter
       (\<lambda>f. PStr f \<in> fst ` set [(PStr ''identifier'', PStr ''x1''), (PStr ''commonName'', PStr ''Org A'')])
       [''commonName'', ''identifier'', ''commonName''])))"
  by (rule parse_frontmatter_request_order
        [where fs = example_fs and file_path = "[''cocs'', ''a.md'']" and safe_load = example_load
           and io = "\<lparr>out = [], err = []\<rparr>" and io' = "\<lparr>out = [], err = []\<rparr>"
           and content = "''---\<newline>identifier: x1\<newline>commonName: Org A\<newline>---\<newline>Text --- more text\<newline>''"])
     (simp_all add: example_defs parse_frontmatter_def try_body_def)

text \<open>
  Claim C2 as stated fails: the example file \<^verbatim>\<open>a.md\<close> decodes to a dict with
  \<^verbatim>\<open>identifier\<close> before \<^verbatim>\<open>commonName\<close>; asked for \<^verbatim>\<open>commonName\<close> and then
  \<^verbatim>\<open>identifier\<close>, the record has \<^verbatim>\<open>commonName\<close> first.
\<close>

theorem parse_frontmatter_source_order_counterexample:
  "parse_frontmatter example_load example_fs [''cocs'', ''a.md''] [''commonName'', ''identifier'']
       \<lparr>out = [], err = []\<rparr>
     = (Inr (Some [(''commonName'', PStr ''Org A''), (''identifier'', PStr ''x1'')]),
        \<lparr>out = [], err = []\<rparr>)
   \<and> example_load ''\<newline>identifier: x1\<newline>commonName: Org A\<newline>''
     = Inr (PDict [(PStr ''identifier'', PStr ''x1''), (PStr ''commonName'', PStr ''Org A'')])"
  by (simp add: example_defs parse_frontmatter_def try_body_def)

text \<open>
  Claim C3, as amended. When the frontmatter decodes to a value that is not a dict,
  \<^const>\<open>parse_frontmatter\<close> returns \<^verbatim>\<open>None\<close>. It prints one line, with the prefix
  \<^verbatim>\<open>ERROR:\<close>, exactly when for some requested field the test \<^verbatim>\<open>field in data\<close>
  raises or is true (indexing then raises); when the test is false for every requested field
  it prints nothing.
\<close>

theorem parse_frontmatter_not_mapping:
  assumes "read_text fs file_path = Inr content"
    and "3 \<le> length (str_split YAML_SEPARATOR content)"
    and "strip (str_split YAML_SEPARATOR content ! 0) = []"
    and "safe_load (str_split YAML_SEPARATOR content ! 1) = Inr v"
    and "\<forall>d. v \<noteq> PDict d"
  shows "fst (parse_frontmatter safe_load fs file_path field_list io) = Inr None
       \<and> ((\<exists>f\<in>set field_list. py_contains v f \<noteq> Inr False) \<longrightarrow>
            (\<exists>e. snd (parse_frontmatter safe_load fs file_path field_list io)
                   = print_err (error_msg file_path e) io
                 \<and> prefix ''ERROR:'' (error_msg file_path e)))
       \<and> ((\<forall>f\<in>set field_list. py_contains v f = Inr False) \<longrightarrow>
            snd (parse_frontmatter safe_load fs file_path field_list io) = io)"
proof -
  note pf = parse_frontmatter_decoded[where safe_load = safe_load, OF assms(1-4)]
  show ?thesis
  proof (cases "\<forall>f\<in>set field_list. py_contains v f = Inr False")
    case True
    then have "copy_fields v field_list [] = Inr []"
      using assms(5) by (simp add: copy_fields_other_quiet)
    with True show ?thesis by (simp add: pf)
  next
    case False
    then have "\<exists>f\<in>set field_list. py_contains v f \<noteq> Inr False" by blast
    then obtain e where "copy_fields v field_list [] = Inl e"
      using assms(5) copy_fields_other_raises by blast
    with False show ?thesis by (auto simp: pf error_msg_def)
  qed
qed

theorem parse_frontmatter_not_mapping_witness:
  "(fst (parse_frontmatter example_load example_fs [''drafts'', ''s.md''] [''identifier'', ''title'']
           \<lparr>out = [], err = []\<rparr>) = Inr None
    \<and> (\<exists>e. snd (parse_frontmatter example_load example_fs [''drafts'', ''s.md'']
                     [''identifier'', ''title''] \<lparr>out = [], err = []\<rparr>)
               = print_err (error_msg [''drafts'', ''s.md''] e) \<lparr>out = [], err = []\<rparr>
             \<and> prefix ''ERROR:'' (error_msg [''drafts'', ''s.md''] e)))
   \<and> (fst (parse_frontmatter example_load example_fs [''drafts'', ''s.md''] [''identifier'']
              \<lparr>out = [], err = []\<rparr>) = Inr None
      \<and> snd (parse_frontmatter example_load example_fs [''drafts'', ''s.md''] [''identifier'']
                \<lparr>out = [], err = []\<rparr>) = \<lparr>out = [], err = []\<rparr>)"
proof -
  have rd: "read_text example_fs [''drafts'', ''s.md''] = Inr ''---\<newline>just a title\<newline>---\<newline>''"
    by (simp add: example_defs)
  have len: "3 \<le> length (str_split YAML_SEPARATOR ''---\<newline>just a title\<newline>---\<newline>'')"
    by (simp add: example_defs)
  have blank: "strip (str_split YAML_SEPARATOR ''---\<newline>just a title\<newline>---\<newline>'' ! 0) = []"
    by (simp add: example_defs)
  have dec: "example_load (str_split YAML_SEPARATOR ''---\<newline>just a title\<newline>---\<newline>'' ! 1)
               = Inr (PStr ''just a title'')"
    by (simp add: example_defs)
  have nd: "\<forall>d. PStr ''just a title'' \<noteq> PDict d" by simp
  have hit: "\<exists>f\<in>set [''identifier'', ''title'']. py_contains (PStr ''just a title'') f \<noteq> Inr False"
    by simp
  have miss: "\<forall>f\<in>set [''identifier'']. py_contains (PStr ''just a title'') f = Inr False"
    by simp
  note t = parse_frontmatter_not_mapping[where safe_load = example_load, OF rd len blank dec nd]
  from t[of "[''identifier'', ''title'']" "\<lparr>out = [], err = []\<rparr>"] hit
  have 1: "fst (parse_frontmatter example_load example_fs [''drafts'', ''s.md''] [''identifier'', ''title'']
           \<lparr>out = [], err = []\<rparr>) = Inr None
    \<and> (\<exists>e. snd (parse_frontmatter example_load example_fs [''drafts'', ''s.md'']
                     [''identifier'', ''title''] \<lparr>out = [], err = []\<rparr>)
               = print_err (error_msg [''drafts'', ''s.md''] e) \<lparr>out = [], err = []\<rparr>
             \<and> prefix ''ERROR:'' (error_msg [''drafts'', ''s.md''] e))"
    by blast
  from t[of "[''identifier'']" "\<lparr>out = [], err = []\<rparr>"] miss
  have 2: "fst (parse_frontmatter example_load example_fs [''drafts'', ''s.md''] [''identifier'']
              \<lparr>out = [], err = []\<rparr>) = Inr None
      \<and> snd (parse_frontmatter example_load example_fs [''drafts'', ''s.md''] [''identifier'']
                \<lparr>out = [], err = []\<rparr>) = \<lparr>out = [], err = []\<rparr>"
    by blast
  from 1 2 show ?thesis by blast
qed

text \<open>
  Claim C3 as stated fails: the frontmatter of the example file \<^verbatim>\<open>s.md\<close> decodes to
  the string \<^verbatim>\<open>just a title\<close>; asked for \<^verbatim>\<open>identifier\<close>, which is no substring of
  it, \<^const>\<open>parse_frontmatter\<close> returns \<^verbatim>\<open>None\<close> and both streams stay empty.
\<close>

theorem parse_frontmatter_silent_counterexample:
  "parse_frontmatter example_load example_fs [''drafts'', ''s.md''] [''identifier'']
       \<lparr>out = [], err = []\<rparr>
     = (Inr None, \<lparr>out = [], err = []\<rparr>)
   \<and> example_load (str_split YAML_SEPARATOR ''---\<newline>just a title\<newline>---\<newline>'' ! 1)
     = Inr (PStr ''just a title'')"
  by (simp add: example_defs parse_frontmatter_def try_body_def)

text \<open>
  Claim C10. When the frontmatter decodes to \<^verbatim>\<open>None\<close> and at least one field is
  requested (the command line requires one), the first membership test raises a
  \<^verbatim>\<open>TypeError\<close>; the handler prints one line with the prefix \<^verbatim>\<open>ERROR:\<close>, not
  \<^verbatim>\<open>WARN:\<close>, and \<^const>\<open>parse_frontmatter\<close> returns \<^verbatim>\<open>None\<close>.
\<close>

theorem parse_frontmatter_null:
  assumes "read_text fs file_path = Inr content"
    and "3 \<le> length (str_split YAML_SEPARATOR content)"
    and "strip (str_split YAML_SEPARATOR content ! 0) = []"
    and "safe_load (str_split YAML_SEPARATOR content ! 1) = Inr PNone"
    and "field_list \<noteq> []"
  shows "let line = error_msg file_path
               (TypeError (''argument of type '' @ quoted ''NoneType'' @ '' is not iterable''))
         in parse_frontmatter safe_load fs file_path field_list io = (Inr None, print_err line io)
            \<and> prefix ''ERROR:'' line \<and> \<not> prefix ''WARN:'' line"
proof -
  from assms(5) obtain f fl where "field_list = f # fl" by (cases field_list) auto
  then have "copy_fields PNone field_list [] =
      Inl (TypeError (''argument of type '' @ quoted ''NoneType'' @ '' is not iterable''))"
    by simp
  then show ?thesis
    using parse_frontmatter_decoded[where safe_load = safe_load, OF assms(1-4)]
    by (simp add: error_msg_def Let_def)
qed

theorem parse_frontmatter_null_witness:
  "let line = error_msg [''drafts'', ''n.md'']
         (TypeError (''argument of type '' @ quoted ''NoneType'' @ '' is not iterable''))
   in parse_frontmatter example_load example_fs [''drafts'', ''n.md''] [''identifier'']
        \<lparr>out = [], err = []\<rparr> = (Inr None, print_err line \<lparr>out = [], err = []\<rparr>)
      \<and> prefix ''ERROR:'' line \<and> \<not> prefix ''WARN:'' line"
  by (rule parse_frontmatter_null [where content = "''---\<newline># to do\<newline>---\<newline>''"])
     (simp_all add: example_defs)

section \<open>Splitting at the separator\<close>







section \<open>Scanning a directory\<close>

lemmas run_defs = parse_dir_def glob_md_def parse_frontmatter_def try_body_def suffix_to_prefix
  print_err_def print_out_def hash_val_def

lemma parse_frontmatter_some_nonempty:
  "parse_frontmatter safe_load fs file_path field_list io = (Inr (Some h), io') \<Longrightarrow> h \<noteq> []"
  by (auto simp: parse_frontmatter_def try_body_def Let_def split: sum.splits if_splits)

lemma parse_frontmatter_no_match:
  assumes "read_text fs file_path = Inr content"
    and "3 \<le> length (str_split YAML_SEPARATOR content)"
    and "strip (str_split YAML_SEPARATOR content ! 0) = []"
    and "safe_load (str_split YAML_SEPARATOR content ! 1) = Inr (PDict d)"
    and "\<forall>f\<in>set field_list. PStr f \<notin> fst ` set d"
  shows "parse_frontmatter safe_load fs file_path field_list io = (Inr None, io)"
proof -
  have "\<And>f. f \<in> set field_list \<Longrightarrow> map_of d (PStr f) = None"
    using assms(5) by (simp add: map_of_eq_None_iff)
  then have "\<And>h. fold (pick d) field_list h = h"
    by (induction field_list) (simp_all add: pick_def)
  then show ?thesis
    using parse_frontmatter_decoded[where safe_load = safe_load, OF assms(1-4)]
    by (simp add: copy_fields_dict)
qed

lemma parse_frontmatter_streams:
  "parse_frontmatter safe_load fs p field_list io =
     (fst (parse_frontmatter safe_load fs p field_list \<lparr>out = [], err = []\<rparr>),
      io\<lparr>err := err io @ file_lines safe_load fs field_list p\<rparr>)"
  by (auto simp: file_lines_def parse_frontmatter_def try_body_def print_err_def Let_def
      split: sum.splits)

lemma scan_files_nonempty:
  "fst (scan_files safe_load fs field_list ps all_data io) = Inr result
     \<Longrightarrow> \<forall>h\<in>set all_data. h \<noteq> [] \<Longrightarrow> \<forall>h\<in>set result. h \<noteq> []"
proof (induction ps arbitrary: all_data io)
  case Nil
  then show ?case by simp
next
  case (Cons p ps)
  obtain r io' where pf: "parse_frontmatter safe_load fs p field_list io = (r, io')"
    by (cases "parse_frontmatter safe_load fs p field_list io")
  show ?case
  proof (cases r)
    case (Inl e)
    with pf Cons.prems show ?thesis by simp
  next
    case (Inr data)
    let ?acc = "if truthy data then all_data @ [the data] else all_data"
    have "\<forall>h\<in>set ?acc. h \<noteq> []"
      using Cons.prems(2) by (cases data) auto
    moreover have "fst (scan_files safe_load fs field_list ps ?acc io') = Inr result"
      using Cons.prems(1) pf Inr by simp
    ultimately show ?thesis by (rule Cons.IH[rotated])
  qed
qed

text \<open>
  Claim C6. A record that \<^const>\<open>parse_frontmatter\<close> returns is never empty; what
  \<^const>\<open>parse_dir\<close> returns is \<^verbatim>\<open>None\<close> or a \<^verbatim>\<open>config_map\<close> whose records
  are all non-empty; and a file whose frontmatter dict has none of the requested fields
  gives \<^verbatim>\<open>None\<close>, with nothing printed.
\<close>

theorem records_nonempty:
  "(parse_frontmatter safe_load fs file_path field_list io = (Inr (Some h), io') \<longrightarrow> h \<noteq> [])
   \<and> (fst (parse_dir safe_load fs scanpath dir field_list io) = Inr output \<longrightarrow>
        output = PNone
        \<or> (\<exists>all_data. output = PDict [(PStr ''config_map'', PList (map hash_val all_data))]
              \<and> all_data \<noteq> [] \<and> [] \<notin> set all_data))
   \<and> (read_text fs file_path = Inr content
        \<and> 3 \<le> length (str_split YAML_SEPARATOR content)
        \<and> strip (str_split YAML_SEPARATOR content ! 0) = []
        \<and> safe_load (str_split YAML_SEPARATOR content ! 1) = Inr (PDict d)
        \<and> (\<forall>f\<in>set field_list. PStr f \<notin> fst ` set d)
      \<longrightarrow> parse_frontmatter safe_load fs file_path field_list io = (Inr None, io))"
proof (intro conjI impI)
  assume "parse_frontmatter safe_load fs file_path field_list io = (Inr (Some h), io')"
  then show "h \<noteq> []" by (rule parse_frontmatter_some_nonempty)
next
  assume a: "fst (parse_dir safe_load fs scanpath dir field_list io) = Inr output"
  show "output = PNone
        \<or> (\<exists>all_data. output = PDict [(PStr ''config_map'', PList (map hash_val all_data))]
              \<and> all_data \<noteq> [] \<and> [] \<notin> set all_data)"
  proof (cases scanpath)
    case None
    with a show ?thesis by (simp add: parse_dir_def)
  next
    case (Some sp)
    obtain r io' where sc:
      "scan_files safe_load fs field_list (sort (glob_md fs sp)) [] io = (r, io')"
      by (cases "scan_files safe_load fs field_list (sort (glob_md fs sp)) [] io")
    show ?thesis
    proof (cases r)
      case (Inl e)
      with a Some sc show ?thesis by (simp add: parse_dir_def)
    next
      case (Inr all_data)
      then have "fst (scan_files safe_load fs field_list (sort (glob_md fs sp)) [] io) = Inr all_data"
        using sc by simp
      then have "\<forall>h\<in>set all_data. h \<noteq> []"
        by (rule scan_files_nonempty) simp
      with a Some sc Inr show ?thesis
        by (auto simp: parse_dir_def split: if_splits)
    qed
  qed
next
  assume b: "read_text fs file_path = Inr content
        \<and> 3 \<le> length (str_split YAML_SEPARATOR content)
        \<and> strip (str_split YAML_SEPARATOR content ! 0) = []
        \<and> safe_load (str_split YAML_SEPARATOR content ! 1) = Inr (PDict d)
        \<and> (\<forall>f\<in>set field_list. PStr f \<notin> fst ` set d)"
  show "parse_frontmatter safe_load fs file_path field_list io = (Inr None, io)"
    by (rule parse_frontmatter_no_match[where content = content and d = d]) (insert b, blast)+
qed

theorem records_nonempty_witness:
  "(parse_frontmatter example_load example_fs [''cocs'', ''b.md''] [''identifier'']
        \<lparr>out = [], err = []\<rparr>
      = (Inr (Some [(''identifier'', PStr ''x2'')]), \<lparr>out = [], err = []\<rparr>)
    \<and> [(''identifier'', PStr ''x2'')] \<noteq> [])
   \<and> (fst (parse_dir example_load example_fs (Some [''cocs'']) [''cocs''] [''identifier'']
              \<lparr>out = [], err = []\<rparr>)
        = Inr (PDict [(PStr ''config_map'',
                 PList [PDict [(PStr ''identifier'', PStr ''x1'')],
                        PDict [(PStr ''identifier'', PStr ''x2'')]])])
      \<and> (\<exists>all_data.
            PDict [(PStr ''config_map'',
                 PList [PDict [(PStr ''identifier'', PStr ''x1'')],
                        PDict [(PStr ''identifier'', PStr ''x2'')]])]
              = PDict [(PStr ''config_map'', PList (map hash_val all_data))]
            \<and> all_data \<noteq> [] \<and> [] \<notin> set all_data))
   \<and> parse_frontmatter example_load example_fs [''cocs'', ''b.md''] [''license'']
        \<lparr>out = [], err = []\<rparr>
      = (Inr None, \<lparr>out = [], err = []\<rparr>)"
proof -
  have a: "parse_frontmatter example_load example_fs [''cocs'', ''b.md''] [''identifier'']
        \<lparr>out = [], err = []\<rparr>
      = (Inr (Some [(''identifier'', PStr ''x2'')]), \<lparr>out = [], err = []\<rparr>)"
    by (simp add: example_defs run_defs)
  have b: "fst (parse_dir example_load example_fs (Some [''cocs'']) [''cocs''] [''identifier'']
              \<lparr>out = [], err = []\<rparr>)
        = Inr (PDict [(PStr ''config_map'',
                 PList [PDict [(PStr ''identifier'', PStr ''x1'')],
                        PDict [(PStr ''identifier'', PStr ''x2'')]])])"
    by (simp add: example_defs run_defs)
  have c: "read_text example_fs [''cocs'', ''b.md''] = Inr ''---\<newline>identifier: x2\<newline>---\<newline>''
        \<and> 3 \<le> length (str_split YAML_SEPARATOR ''---\<newline>identifier: x2\<newline>---\<newline>'')
        \<and> strip (str_split YAML_SEPARATOR ''---\<newline>identifier: x2\<newline>---\<newline>'' ! 0) = []
        \<and> example_load (str_split YAML_SEPARATOR ''---\<newline>identifier: x2\<newline>---\<newline>'' ! 1)
            = Inr (PDict [(PStr ''identifier'', PStr ''x2'')])
        \<and> (\<forall>f\<in>set [''license'']. PStr f \<notin> fst ` set [(PStr ''identifier'', PStr ''x2'')])"
    by (simp add: example_defs)
  note t1 = records_nonempty
    [of example_load example_fs "[''cocs'', ''b.md'']" "[''identifier'']" "\<lparr>out = [], err = []\<rparr>"
        "[(''identifier'', PStr ''x2'')]" "\<lparr>out = [], err = []\<rparr>" "Some [''cocs'']"
        "[''cocs'']"
        "PDict [(PStr ''config_map'',
                 PList [PDict [(PStr ''identifier'', PStr ''x1'')],
                        PDict [(PStr ''identifier'', PStr ''x2'')]])]"]
  note t2 = records_nonempty
    [of example_load example_fs "[''cocs'', ''b.md'']" "[''license'']" "\<lparr>out = [], err = []\<rparr>"
        _ _ _ _ _ "''---\<newline>identifier: x2\<newline>---\<newline>''" "[(PStr ''identifier'', PStr ''x2'')]"]
  from t1 a have p1: "[(''identifier'', PStr ''x2'')] \<noteq> ([] :: record_hash)" by blast
  from t1 b have p2: "\<exists>all_data.
            PDict [(PStr ''config_map'',
                 PList [PDict [(PStr ''identifier'', PStr ''x1'')],
                        PDict [(PStr ''identifier'', PStr ''x2'')]])]
              = PDict [(PStr ''config_map'', PList (map hash_val all_data))]
            \<and> all_data \<noteq> [] \<and> [] \<notin> set all_data"
    by blast
  from t2 c have p3: "parse_frontmatter example_load example_fs [''cocs'', ''b.md''] [''license'']
        \<lparr>out = [], err = []\<rparr> = (Inr None, \<lparr>out = [], err = []\<rparr>)"
    by blast
  from a b p1 p2 p3 show ?thesis by blast
qed

lemma parse_frontmatter_returns:
  assumes "\<forall>q e. read_text fs q = Inl e \<longrightarrow> is_Exception e"
    and "\<forall>s e. safe_load s = Inl e \<longrightarrow> is_Exception e"
  shows "\<exists>r. fst (parse_frontmatter safe_load fs p field_list io) = Inr r"
  using assms
  by (auto simp: parse_frontmatter_def try_body_def Let_def split: sum.splits
      dest: copy_fields_exn)

lemma scan_files_all:
  assumes "\<forall>q e. read_text fs q = Inl e \<longrightarrow> is_Exception e"
    and "\<forall>s e. safe_load s = Inl e \<longrightarrow> is_Exception e"
  shows "scan_files safe_load fs field_list ps all_data io =
           (Inr (all_data @ List.map_filter (file_record safe_load fs field_list) ps),
            io\<lparr>err := err io @ concat (map (file_lines safe_load fs field_list) ps)\<rparr>)"
proof (induction ps arbitrary: all_data io)
  case Nil
  then show ?case by (simp add: List.map_filter_simps)
next
  case (Cons p ps)
  obtain data where r: "fst (parse_frontmatter safe_load fs p field_list \<lparr>out = [], err = []\<rparr>) = Inr data"
    using parse_frontmatter_returns[OF assms] by blast
  have pf: "parse_frontmatter safe_load fs p field_list io =
      (Inr data, io\<lparr>err := err io @ file_lines safe_load fs field_list p\<rparr>)"
    using parse_frontmatter_streams[of safe_load fs p field_list io] r by simp
  show ?case
  proof (cases "truthy data")
    case True
    then obtain h where "data = Some h" by (cases data) auto
    with True r pf show ?thesis
      by (simp add: Cons.IH List.map_filter_simps file_record_def)
  next
    case False
    with r pf show ?thesis
      by (simp add: Cons.IH List.map_filter_simps file_record_def)
  qed
qed

text \<open>
  Claim C9. Suppose that what reading a file or decoding its frontmatter raises derives from
  \<^verbatim>\<open>Exception\<close>, as \<^verbatim>\<open>OSError\<close>, \<^verbatim>\<open>UnicodeDecodeError\<close> and
  \<^verbatim>\<open>yaml.YAMLError\<close> do. Then \<^const>\<open>parse_frontmatter\<close> returns and does not
  raise; from any point of the loop, \<^const>\<open>scan_files\<close> goes through all the files
  that remain, adding the record and the printed lines of each; and \<^const>\<open>parse_dir\<close>,
  once \<^verbatim>\<open>scanpath\<close> is bound, returns.
\<close>

theorem failures_stay_in_file:
  assumes "\<forall>q e. read_text fs q = Inl e \<longrightarrow> is_Exception e"
    and "\<forall>s e. safe_load s = Inl e \<longrightarrow> is_Exception e"
  shows "(\<exists>r. fst (parse_frontmatter safe_load fs file_path field_list io) = Inr r)
       \<and> scan_files safe_load fs field_list ps all_data io =
           (Inr (all_data @ List.map_filter (file_record safe_load fs field_list) ps),
            io\<lparr>err := err io @ concat (map (file_lines safe_load fs field_list) ps)\<rparr>)
       \<and> (\<exists>output. fst (parse_dir safe_load fs (Some sp) dir field_list io) = Inr output)"
proof (intro conjI)
  show "\<exists>r. fst (parse_frontmatter safe_load fs file_path field_list io) = Inr r"
    using assms by (rule parse_frontmatter_returns)
  show "scan_files safe_load fs field_list ps all_data io =
           (Inr (all_data @ List.map_filter (file_record safe_load fs field_list) ps),
            io\<lparr>err := err io @ concat (map (file_lines safe_load fs field_list) ps)\<rparr>)"
    using assms by (rule scan_files_all)
  show "\<exists>output. fst (parse_dir safe_load fs (Some sp) dir field_list io) = Inr output"
    by (simp add: parse_dir_def scan_files_all[OF assms])
qed

lemma example_fs_failures: "\<forall>q e. read_text example_fs q = Inl e \<longrightarrow> is_Exception e"
  by (auto simp: example_fs_def split: option.splits)

lemma example_load_failures: "\<forall>s e. example_load s = Inl e \<longrightarrow> is_Exception e"
  by (auto simp: example_load_def split: option.splits)

theorem failures_stay_in_file_witness:
  "(\<exists>r. fst (parse_frontmatter example_load example_fs [''cocs'', ''missing.md''] [''identifier'']
              \<lparr>out = [], err = []\<rparr>) = Inr r)
   \<and> scan_files example_load example_fs [''identifier'']
        [[''cocs'', ''missing.md''], [''cocs'', ''b.md'']] [] \<lparr>out = [], err = []\<rparr> =
       (Inr ([] @ List.map_filter (file_record example_load example_fs [''identifier''])
                   [[''cocs'', ''missing.md''], [''cocs'', ''b.md'']]),
        \<lparr>out = [], err = []\<rparr>\<lparr>err := err \<lparr>out = [], err = []\<rparr>
           @ concat (map (file_lines example_load example_fs [''identifier''])
                       [[''cocs'', ''missing.md''], [''cocs'', ''b.md'']])\<rparr>)
   \<and> (\<exists>output. fst (parse_dir example_load example_fs (Some [''drafts'']) [''drafts'']
                      [''identifier''] \<lparr>out = [], err = []\<rparr>) = Inr output)"
  by (rule failures_stay_in_file[OF example_fs_failures example_load_failures])

lemma child_le: "(sp @ [a] \<le> sp @ [b]) = (a \<le> b)" for a b :: string
  by (induction sp) (auto simp: le_less)

lemma sort_children: "sort (map (\<lambda>n. sp @ [n]) ns) = map (\<lambda>n. sp @ [n]) (sort ns)"
  for ns :: "string list"
proof (rule properties_for_sort)
  show "mset (map (\<lambda>n. sp @ [n]) (sort ns)) = mset (map (\<lambda>n. sp @ [n]) ns)"
    by simp
  have "sorted_wrt (\<lambda>a b. sp @ [a] \<le> sp @ [b]) (sort ns)"
    by (simp only: child_le sorted_sort)
  then show "sorted (map (\<lambda>n. sp @ [n]) (sort ns))"
    by (simp only: sorted_map)
qed

lemma sort_glob_md:
  assumes "entries fs sp = Some ns"
  shows "sort (glob_md fs sp) = map (\<lambda>n. sp @ [n]) (sort (filter (suffix ''.md'') ns))"
  using assms by (simp add: glob_md_def sort_children)

lemma sort_filter_mset:
  fixes xs ys :: "string list"
  assumes "mset xs = mset ys"
  shows "sort (filter P xs) = sort (filter P ys)"
proof -
  have "mset (filter P xs) = mset (filter P ys)" using assms by simp
  then show ?thesis by (metis sorted_list_of_multiset_mset)
qed

lemma scan_files_read_text:
  assumes "read_text fs' = read_text fs"
  shows "scan_files safe_load fs' field_list ps all_data io
           = scan_files safe_load fs field_list ps all_data io"
proof -
  have "\<And>p io. parse_frontmatter safe_load fs' p field_list io
                 = parse_frontmatter safe_load fs p field_list io"
    using assms by (simp add: parse_frontmatter_def try_body_def)
  then show ?thesis
    by (induction ps arbitrary: all_data io) (simp_all split: prod.splits sum.splits)
qed

text \<open>
  Claim C5. The files are visited in ascending order of their names, and the records of the
  result are those of the visited files in that order; two file systems that list the same
  entries of the directory in different orders, and agree on the files, give the same
  outcome. (Failures of reading and decoding are taken to derive from
  \<^verbatim>\<open>Exception\<close>, so that the scan returns.)
\<close>

theorem parse_dir_filename_order:
  assumes "entries fs sp = Some ns" and "entries fs' sp = Some ns'"
    and "mset ns' = mset ns" and "read_text fs' = read_text fs"
    and "\<forall>q e. read_text fs q = Inl e \<longrightarrow> is_Exception e"
    and "\<forall>s e. safe_load s = Inl e \<longrightarrow> is_Exception e"
  shows "sort (glob_md fs sp) = map (\<lambda>n. sp @ [n]) (sort (filter (suffix ''.md'') ns))
       \<and> fst (parse_dir safe_load fs (Some sp) dir field_list io) =
           Inr (let all_data = List.map_filter (file_record safe_load fs field_list)
                                 (map (\<lambda>n. sp @ [n]) (sort (filter (suffix ''.md'') ns)))
                in if all_data = [] then PNone
                   else PDict [(PStr ''config_map'', PList (map hash_val all_data))])
       \<and> sorted (sort (filter (suffix ''.md'') ns))
       \<and> parse_dir safe_load fs' (Some sp) dir field_list io
           = parse_dir safe_load fs (Some sp) dir field_list io"
proof (intro conjI)
  show g: "sort (glob_md fs sp) = map (\<lambda>n. sp @ [n]) (sort (filter (suffix ''.md'') ns))"
    using assms(1) by (rule sort_glob_md)
  show "fst (parse_dir safe_load fs (Some sp) dir field_list io) =
           Inr (let all_data = List.map_filter (file_record safe_load fs field_list)
                                 (map (\<lambda>n. sp @ [n]) (sort (filter (suffix ''.md'') ns)))
                in if all_data = [] then PNone
                   else PDict [(PStr ''config_map'', PList (map hash_val all_data))])"
    by (simp add: parse_dir_def g scan_files_all[OF assms(5,6)] Let_def)
  show "sorted (sort (filter (suffix ''.md'') ns))" by simp
  have "sort (glob_md fs' sp) = sort (glob_md fs sp)"
    using sort_filter_mset[OF assms(3), of "suffix ''.md''"]
    by (simp add: sort_glob_md[OF assms(1)] sort_glob_md[OF assms(2)])
  then show "parse_dir safe_load fs' (Some sp) dir field_list io
           = parse_dir safe_load fs (Some sp) dir field_list io"
    by (simp add: parse_dir_def scan_files_read_text[OF assms(4)])
qed

theorem parse_dir_filename_order_witness:
  "sort (glob_md example_fs [''cocs''])
     = map (\<lambda>n. [''cocs''] @ [n])
         (sort (filter (suffix ''.md'') [''b.md'', ''README.txt'', ''a.md'', ''c.md'']))
   \<and> fst (parse_dir example_load example_fs (Some [''cocs'']) [''cocs''] [''identifier'']
            \<lparr>out = [], err = []\<rparr>) =
       Inr (let all_data = List.map_filter (file_record example_load example_fs [''identifier''])
                             (map (\<lambda>n. [''cocs''] @ [n])
                                (sort (filter (suffix ''.md'') [''b.md'', ''README.txt'', ''a.md'', ''c.md''])))
            in if all_data = [] then PNone
               else PDict [(PStr ''config_map'', PList (map hash_val all_data))])
   \<and> sorted (sort (filter (suffix ''.md'') [''b.md'', ''README.txt'', ''a.md'', ''c.md'']))
   \<and> parse_dir example_load
        (example_fs\<lparr>entries := \<lambda>p. Some [''c.md'', ''a.md'', ''b.md'', ''README.txt'']\<rparr>)
        (Some [''cocs'']) [''cocs''] [''identifier''] \<lparr>out = [], err = []\<rparr>
       = parse_dir example_load example_fs (Some [''cocs'']) [''cocs''] [''identifier'']
           \<lparr>out = [], err = []\<rparr>"
proof (rule parse_dir_filename_order)
  show "entries example_fs [''cocs''] = Some [''b.md'', ''README.txt'', ''a.md'', ''c.md'']"
    by (simp add: example_fs_def example_dirs_def)
  show "entries (example_fs\<lparr>entries := \<lambda>p. Some [''c.md'', ''a.md'', ''b.md'', ''README.txt'']\<rparr>)
          [''cocs''] = Some [''c.md'', ''a.md'', ''b.md'', ''README.txt'']"
    by simp
  show "mset [''c.md'', ''a.md'', ''b.md'', ''README.txt'']
          = mset [''b.md'', ''README.txt'', ''a.md'', ''c.md'']"
    by (simp add: add_mset_commute)
  show "read_text (example_fs\<lparr>entries := \<lambda>p. Some [''c.md'', ''a.md'', ''b.md'', ''README.txt'']\<rparr>)
          = read_text example_fs"
    by simp
  show "\<forall>q e. read_text example_fs q = Inl e \<longrightarrow> is_Exception e"
    by (rule example_fs_failures)
  show "\<forall>s e. example_load s = Inl e \<longrightarrow> is_Exception e"
    by (rule example_load_failures)
qed

text \<open>
  Claim C7, checked on the code. After a scan without records, for any \<^verbatim>\<open>yaml.dump\<close>,
  standard output holds the notice and then the dump of \<^verbatim>\<open>None\<close>, which
  \<^const>\<open>main\<close> prints as it prints any result; the exit status is 0.
\<close>

theorem main_prints_notice_and_dump:
  "main example_load dump example_fs [''empty''] [''identifier'']
     = (\<lparr>out = [no_posts_msg, dump PNone], err = []\<rparr>, 0)
   \<and> main example_load dump example_fs [''cocs''] [''license'']
     = (\<lparr>out = [no_posts_msg, dump PNone],
         err = [''WARN: Skipping c.md: No frontmatter found.'']\<rparr>, 0)"
  by (simp add: main_def is_dir_def example_defs run_defs warn_msg_def path_name_def)

text \<open>
  Claim C8, checked on the code. Called with the directory \<^verbatim>\<open>cocs\<close> and the same
  field list, \<^const>\<open>parse_dir\<close> scans \<^verbatim>\<open>cocs\<close> when the global
  \<^verbatim>\<open>scanpath\<close> is \<^verbatim>\<open>cocs\<close>, scans \<^verbatim>\<open>drafts\<close> when the global is
  \<^verbatim>\<open>drafts\<close>, and raises \<^verbatim>\<open>NameError\<close> when the global is unbound.
\<close>

theorem parse_dir_reads_global:
  "fst (parse_dir example_load example_fs (Some [''cocs'']) [''cocs''] [''identifier'']
          \<lparr>out = [], err = []\<rparr>)
     = Inr (PDict [(PStr ''config_map'',
              PList [PDict [(PStr ''identifier'', PStr ''x1'')],
                     PDict [(PStr ''identifier'', PStr ''x2'')]])])
   \<and> fst (parse_dir example_load example_fs (Some [''drafts'']) [''cocs''] [''identifier'']
            \<lparr>out = [], err = []\<rparr>)
     = Inr PNone
   \<and> fst (parse_dir example_load example_fs None [''cocs''] [''identifier'']
            \<lparr>out = [], err = []\<rparr>)
     = Inl (NameError (''name '' @ quoted ''scanpath'' @ '' is not defined''))"
  by (simp add: example_defs run_defs)

end
